theory Spec2Isabelle
  imports Main "HOL-Library.Word" "HOL-Library.Sublist" "HOL-Library.Multiset"
begin

section \<open>JavaScript strings and the terminal formatter (utils.ts)\<close>

text \<open>
  A JavaScript string is a sequence of UTF-16 code units. \<open>split('')\<close>, \<open>reverse()\<close>,
  \<open>join('')\<close> and a regular expression without the \<open>u\<close> flag all work on code units,
  so the formatter is modelled on lists of 16-bit words. The parameter type of
  \<open>formatForTerminal\<close> is \<open>string | null | undefined\<close>.
\<close>

type_synonym code_unit = "16 word"
type_synonym jsstring = "code_unit list"

datatype text_arg = Null | Undefined | Str jsstring

text \<open>
  The character class of the regular expression, whose five ranges are 0590-05FF,
  0600-06FF, 0750-077F, FB50-FDFF and FE70-FEFF, and the test itself: some code unit of
  the string lies in the class.
\<close>

definition rtl_unit :: "code_unit \<Rightarrow> bool" where
  "rtl_unit c \<longleftrightarrow>
     (0x0590 \<le> c \<and> c \<le> 0x05FF) \<or> (0x0600 \<le> c \<and> c \<le> 0x06FF) \<or>
     (0x0750 \<le> c \<and> c \<le> 0x077F) \<or> (0xFB50 \<le> c \<and> c \<le> 0xFDFF) \<or>
     (0xFE70 \<le> c \<and> c \<le> 0xFEFF)"

definition hasRTL :: "jsstring \<Rightarrow> bool" where
  "hasRTL text = list_ex rtl_unit text"

text \<open>\<open>text.split('')\<close> yields one string per code unit; \<open>join('')\<close> concatenates.\<close>

definition split_units :: "jsstring \<Rightarrow> jsstring list" where
  "split_units text = map (\<lambda>c. [c]) text"

definition join_units :: "jsstring list \<Rightarrow> jsstring" where
  "join_units parts = concat parts"

text \<open>
  \<open>formatForTerminal\<close> of src/utils.ts. \<open>!text\<close> holds for \<open>null\<close>, \<open>undefined\<close> and
  the empty string.
\<close>

fun formatForTerminal :: "text_arg \<Rightarrow> jsstring" where
  "formatForTerminal Null = []"
| "formatForTerminal Undefined = []"
| "formatForTerminal (Str text) =
     (if text = [] then []
      else if hasRTL text then join_units (rev (split_units text))
      else text)"

text \<open>
  The grapheme-aware revision of the same function. \<open>Intl.Segmenter\<close> belongs to the
  JavaScript runtime, so it is a parameter: \<open>Some segment\<close> when
  \<open>typeof Intl !== 'undefined' && Intl.Segmenter\<close> holds, where \<open>segment text\<close> is the
  array of the \<open>segment\<close> fields of \<open>segmenter.segment(text)\<close>, and \<open>None\<close> in a
  runtime without it, where the function falls back to the reversal of code units.
\<close>

type_synonym segmenter = "jsstring \<Rightarrow> jsstring list"

fun formatForTerminal_segmenter :: "segmenter option \<Rightarrow> text_arg \<Rightarrow> jsstring" where
  "formatForTerminal_segmenter sg Null = []"
| "formatForTerminal_segmenter sg Undefined = []"
| "formatForTerminal_segmenter sg (Str text) =
     (if text = [] then []
      else if hasRTL text then
        (case sg of
           Some segment \<Rightarrow> join_units (rev (segment text))
         | None \<Rightarrow> join_units (rev (split_units text)))
      else text)"

subsection \<open>Code points of a UTF-16 string\<close>

text \<open>
  The claims speak of code points. A code unit in \<open>D800..DBFF\<close> followed by one in
  \<open>DC00..DFFF\<close> encodes one supplementary code point; every other code unit is a code
  point of its own (a lone surrogate included).
\<close>

definition is_high_surrogate :: "code_unit \<Rightarrow> bool" where
  "is_high_surrogate c \<longleftrightarrow> 0xD800 \<le> c \<and> c \<le> 0xDBFF"

definition is_low_surrogate :: "code_unit \<Rightarrow> bool" where
  "is_low_surrogate c \<longleftrightarrow> 0xDC00 \<le> c \<and> c \<le> 0xDFFF"

fun codepoints :: "jsstring \<Rightarrow> nat list" where
  "codepoints [] = []"
| "codepoints [c] = [unat c]"
| "codepoints (h # l # cs) =
     (if is_high_surrogate h \<and> is_low_surrogate l
      then (0x10000 + (unat h - 0xD800) * 0x400 + (unat l - 0xDC00)) # codepoints cs
      else unat h # codepoints (l # cs))"

text \<open>The five blocks the claims list, as ranges of code points.\<close>

definition rtl_codepoint :: "nat \<Rightarrow> bool" where
  "rtl_codepoint n \<longleftrightarrow>
     (0x0590 \<le> n \<and> n \<le> 0x05FF) \<or> (0x0600 \<le> n \<and> n \<le> 0x06FF) \<or>
     (0x0750 \<le> n \<and> n \<le> 0x077F) \<or> (0xFB50 \<le> n \<and> n \<le> 0xFDFF) \<or>
     (0xFE70 \<le> n \<and> n \<le> 0xFEFF)"

text \<open>
  A stand-in for the runtime's segmenter, used where a concrete one is needed: it keeps
  each surrogate pair together and cuts everywhere else.
\<close>

fun surrogate_segments :: "jsstring \<Rightarrow> jsstring list" where
  "surrogate_segments [] = []"
| "surrogate_segments [c] = [[c]]"
| "surrogate_segments (h # l # cs) =
     (if is_high_surrogate h \<and> is_low_surrogate l
      then [h, l] # surrogate_segments cs
      else [h] # surrogate_segments (l # cs))"

section \<open>The structural formatter (utils.ts)\<close>

text \<open>
  The values \<open>formatJsonForTerminal\<close> receives are JSON-like trees. An object is the list
  of its own enumerable entries in the order of \<open>Object.entries\<close>, which is what
  \<open>Object.entries\<close> and \<open>JSON.stringify\<close> see of it; its keys are pairwise distinct,
  which the lemmas about objects assume. The prototype of an object is not part of the
  value. Numbers are only tested for truth and handed on, so integers stand for them.
\<close>

datatype json =
    JNull
  | JUndefined
  | JBool bool
  | JNum int
  | JStr (str_of: jsstring)
  | JArr "json list"
  | JObj "(string \<times> json) list"

datatype jstype = TUndefined | TObject | TBoolean | TNumber | TString

text \<open>The \<open>typeof\<close> operator: \<open>null\<close> and arrays are of type \<open>'object'\<close>.\<close>

fun typeof :: "json \<Rightarrow> jstype" where
  "typeof JNull = TObject"
| "typeof JUndefined = TUndefined"
| "typeof (JBool b) = TBoolean"
| "typeof (JNum n) = TNumber"
| "typeof (JStr s) = TString"
| "typeof (JArr items) = TObject"
| "typeof (JObj entries) = TObject"

text \<open>Writing an own property: overwrite the entry, or add it at the end.\<close>

fun set_prop :: "(string \<times> json) list \<Rightarrow> string \<Rightarrow> json \<Rightarrow> (string \<times> json) list" where
  "set_prop [] key v = [(key, v)]"
| "set_prop ((k, old) # rest) key v =
     (if k = key then (k, v) # rest else (k, old) # set_prop rest key v)"

text \<open>
  The assignment \<open>formatted[key] = v\<close>, where \<open>formatted\<close> starts as the literal \<open>{}\<close>
  and so inherits from \<open>Object.prototype\<close>. Under every name but one the assignment
  writes an own property. The name \<open>__proto__\<close> is an accessor of \<open>Object.prototype\<close>:
  the assignment calls its setter, which replaces the prototype of \<open>formatted\<close> when
  \<open>v\<close> is an object or \<open>null\<close> and does nothing otherwise; in both cases the own entries
  stay as they are.
\<close>

definition assign_prop ::
  "(string \<times> json) list \<Rightarrow> string \<Rightarrow> json \<Rightarrow> (string \<times> json) list" where
  "assign_prop formatted key v =
     (if key = ''__proto__'' then formatted else set_prop formatted key v)"

text \<open>
  \<open>formatJsonForTerminal\<close>. The first test \<open>if (!data) return data\<close> returns the falsy
  values (\<open>null\<close>, \<open>undefined\<close>, \<open>false\<close>, \<open>0\<close>, \<open>''\<close>) as they are, and the last
  \<open>return data\<close> returns every other scalar as it is, so each scalar equation returns its
  argument. \<open>format_entries\<close> is the loop over \<open>Object.entries(data)\<close>, with the object
  \<open>formatted\<close> built so far as its last argument.
\<close>

fun formatJsonForTerminal :: "json \<Rightarrow> string list \<Rightarrow> json"
  and format_entries ::
    "(string \<times> json) list \<Rightarrow> string list \<Rightarrow> (string \<times> json) list \<Rightarrow> (string \<times> json) list"
where
  "formatJsonForTerminal JNull rtlFields = JNull"
| "formatJsonForTerminal JUndefined rtlFields = JUndefined"
| "formatJsonForTerminal (JBool b) rtlFields = JBool b"
| "formatJsonForTerminal (JNum n) rtlFields = JNum n"
| "formatJsonForTerminal (JStr s) rtlFields = JStr s"
| "formatJsonForTerminal (JArr items) rtlFields =
     JArr (map (\<lambda>item. formatJsonForTerminal item rtlFields) items)"
| "formatJsonForTerminal (JObj entries) rtlFields = JObj (format_entries entries rtlFields [])"
| "format_entries [] rtlFields formatted = formatted"
| "format_entries ((key, v) # rest) rtlFields formatted =
     format_entries rest rtlFields
       (if key \<in> set rtlFields \<and> typeof v = TString
        then assign_prop formatted key (JStr (formatForTerminal (Str (str_of v))))
        else if typeof v = TObject
        then assign_prop formatted key (formatJsonForTerminal v rtlFields)
        else assign_prop formatted key v)"

text \<open>The default value of the parameter \<open>rtlFields\<close>.\<close>

definition default_rtlFields :: "string list" where
  "default_rtlFields = [''title'', ''notes'']"

text \<open>The value one round of the loop stores under \<open>key\<close>.\<close>

definition entry_value :: "string list \<Rightarrow> string \<Rightarrow> json \<Rightarrow> json" where
  "entry_value rtlFields key v =
     (if key \<in> set rtlFields \<and> typeof v = TString
      then JStr (formatForTerminal (Str (str_of v)))
      else if typeof v = TObject then formatJsonForTerminal v rtlFields
      else v)"

section \<open>The tool catalog (mcp/tool-definitions.ts)\<close>

record PropertySchema =
  prop_type :: string
  prop_description :: string
  prop_enum :: "string list option"
  prop_default :: "json option"

record InputSchema =
  schema_type :: string
  properties :: "(string \<times> PropertySchema) list"
  required :: "string list option"

record ToolDefinition =
  name :: string
  description :: string
  inputSchema :: InputSchema

text \<open>A property \<open>{ type: 'string', description: d }\<close>.\<close>

definition string_property :: "string \<Rightarrow> PropertySchema" where
  "string_property d =
     \<lparr>prop_type = ''string'', prop_description = d, prop_enum = None, prop_default = None\<rparr>"

definition TOOL_DEFINITIONS :: "ToolDefinition list" where
  "TOOL_DEFINITIONS =
   [\<lparr>name = ''list_task_lists'',
     description = ''List all Google Tasks task lists'',
     inputSchema = \<lparr>schema_type = ''object'', properties = [], required = None\<rparr>\<rparr>,
    \<lparr>name = ''create_task_list'',
     description = ''Create a new task list'',
     inputSchema = \<lparr>schema_type = ''object'',
       properties = [(''title'', string_property ''Title of the new task list'')],
       required = Some [''title'']\<rparr>\<rparr>,
    \<lparr>name = ''list_tasks'',
     description = ''List tasks in a specific task list'',
     inputSchema = \<lparr>schema_type = ''object'',
       properties =
         [(''taskListId'', string_property ''ID of the task list''),
          (''showCompleted'',
             \<lparr>prop_type = ''boolean'', prop_description = ''Include completed tasks'',
              prop_enum = None, prop_default = Some (JBool False)\<rparr>)],
       required = Some [''taskListId'']\<rparr>\<rparr>,
    \<lparr>name = ''create_task'',
     description = ''Create a new task in a task list'',
     inputSchema = \<lparr>schema_type = ''object'',
       properties =
         [(''taskListId'', string_property ''ID of the task list''),
          (''title'', string_property ''Title of the task''),
          (''notes'', string_property ''Notes/description for the task''),
          (''due'', string_property
             ''Due date in RFC 3339 format (e.g., 2024-12-31T23:59:59Z)'')],
       required = Some [''taskListId'', ''title'']\<rparr>\<rparr>,
    \<lparr>name = ''update_task'',
     description = ''Update an existing task'',
     inputSchema = \<lparr>schema_type = ''object'',
       properties =
         [(''taskListId'', string_property ''ID of the task list''),
          (''taskId'', string_property ''ID of the task to update''),
          (''title'', string_property ''New title for the task''),
          (''notes'', string_property ''New notes for the task''),
          (''status'',
             \<lparr>prop_type = ''string'', prop_description = ''Task status'',
              prop_enum = Some [''needsAction'', ''completed''], prop_default = None\<rparr>),
          (''due'', string_property ''Due date in RFC 3339 format'')],
       required = Some [''taskListId'', ''taskId'']\<rparr>\<rparr>,
    \<lparr>name = ''delete_task'',
     description = ''Delete a task'',
     inputSchema = \<lparr>schema_type = ''object'',
       properties =
         [(''taskListId'', string_property ''ID of the task list''),
          (''taskId'', string_property ''ID of the task to delete'')],
       required = Some [''taskListId'', ''taskId'']\<rparr>\<rparr>,
    \<lparr>name = ''get_auth_url'',
     description = ''Get OAuth2 authorization URL for Google Tasks authentication'',
     inputSchema = \<lparr>schema_type = ''object'', properties = [], required = None\<rparr>\<rparr>]"

definition READ_ONLY_TOOLS :: "string set" where
  "READ_ONLY_TOOLS = {''list_task_lists'', ''list_tasks'', ''get_auth_url''}"

definition MUTATING_TOOLS :: "string set" where
  "MUTATING_TOOLS = {''create_task_list'', ''create_task'', ''update_task'', ''delete_task''}"

text \<open>
  \<open>getAvailableTools\<close> of the HTTP server. The constant \<open>READ_ONLY\<close> is read once from
  the environment (\<open>process.env.READ_ONLY !== 'false'\<close>) and is a parameter here.
\<close>

definition getAvailableTools :: "bool \<Rightarrow> ToolDefinition list" where
  "getAvailableTools READ_ONLY =
     (if READ_ONLY then filter (\<lambda>tool. name tool \<in> READ_ONLY_TOOLS) TOOL_DEFINITIONS
      else TOOL_DEFINITIONS)"

section \<open>The collaborators of the servers (auth.ts, tasks-client.ts, the protocol library)\<close>

text \<open>
  The error codes of the protocol library's \<open>ErrorCode\<close> enumeration; the servers use
  \<open>InvalidRequest\<close>, \<open>MethodNotFound\<close> and \<open>InternalError\<close>. A thrown value is an
  \<open>McpError\<close> with a code and a message, another \<open>Error\<close> with its message, or a value
  that is no \<open>Error\<close>, given by its \<open>String(error)\<close>.
\<close>

datatype ErrorCode =
    ConnectionClosed | RequestTimeout | ParseError | InvalidRequest
  | MethodNotFound | InvalidParams | InternalError

datatype thrown = McpError ErrorCode string | Error string | Thrown string

text \<open>
  The authentication manager owns one \<open>OAuth2Client\<close>. A \<open>GoogleTasksClient\<close> is an
  object built by \<open>new GoogleTasksClient(authClient)\<close>; two objects built at different
  times are different objects, which the model keeps apart by the number of clients
  built before.
\<close>

datatype OAuth2Client = OAuth2Client

datatype GoogleTasksClient = GoogleTasksClient (serial: nat) (auth: OAuth2Client)

text \<open>
  The methods of \<open>GoogleTasksClient\<close> that the servers call, with the arguments as the
  handlers pass them (\<open>listTasks\<close> takes the list id and the \<open>showCompleted\<close> option;
  \<open>createTask\<close> the list id, title, notes and due date; \<open>updateTask\<close> the list id, task
  id, title, notes, status and due date). An argument the request lacks is \<open>undefined\<close>.
\<close>

datatype api_call =
    listTaskLists
  | listTasks json json
  | createTaskList json
  | createTask json json json json
  | updateTask json json json json json json
  | deleteTask json json

text \<open>
  What happens outside the servers is a parameter: whether the saved token loads (and
  the credentials it yields are accepted), the URL \<open>generateAuthUrl\<close> returns, and the
  outcome of each call of the Google Tasks API.
\<close>

record world =
  token_loads :: bool
  generateAuthUrl :: string
  api :: "api_call \<Rightarrow> thrown + json"

definition no_token_message :: string where
  "no_token_message =
     ''No valid token found. Please authenticate first using getAuthUrl() and authenticate().''"

text \<open>\<open>GoogleAuthManager.getAuthClient\<close>: any failure inside is rethrown as one \<open>Error\<close>.\<close>

definition getAuthClient :: "world \<Rightarrow> thrown + OAuth2Client" where
  "getAuthClient w = (if token_loads w then Inr OAuth2Client else Inl (Error no_token_message))"

section \<open>The two servers (index.ts, http-server.ts)\<close>

text \<open>
  The state of a server object is its field \<open>tasksClient\<close>. The model adds \<open>events\<close>,
  the calls made on the collaborators so far, in order, as a test double observes them.
\<close>

datatype event =
    InitializeClient
  | GetAuthClient
  | NewGoogleTasksClient
  | GetAuthUrl
  | ClientCall GoogleTasksClient api_call

record server =
  tasksClient :: "GoogleTasksClient option"
  events :: "event list"

definition new_server :: server where
  "new_server = \<lparr>tasksClient = None, events = []\<rparr>"

definition record_event :: "event \<Rightarrow> server \<Rightarrow> server" where
  "record_event e s = s\<lparr>events := events s @ [e]\<rparr>"

definition constructed :: "server \<Rightarrow> nat" where
  "constructed s = length (filter (\<lambda>e. e = NewGoogleTasksClient) (events s))"

text \<open>
  \<open>initializeClient\<close> is an async function with one \<open>await\<close>. It runs without
  interruption from its entry to the \<open>await\<close> (\<open>initializeClient_enter\<close>: the test of
  \<open>this.tasksClient\<close> and, when it is null, the call of \<open>getAuthClient\<close>), and from the
  settling of the awaited promise to its return (\<open>initializeClient_resume\<close>: the
  construction of the client and the assignment to \<open>this.tasksClient\<close>, or the rejection
  passed on). One call on its own is the two parts in sequence.
\<close>

definition initializeClient_enter :: "server \<Rightarrow> GoogleTasksClient option \<times> server" where
  "initializeClient_enter s =
     (let s1 = record_event InitializeClient s in
      case tasksClient s1 of
        Some client \<Rightarrow> (Some client, s1)
      | None \<Rightarrow> (None, record_event GetAuthClient s1))"

definition initializeClient_resume ::
  "world \<Rightarrow> server \<Rightarrow> (thrown + GoogleTasksClient) \<times> server" where
  "initializeClient_resume w s =
     (case getAuthClient w of
        Inl error \<Rightarrow> (Inl error, s)
      | Inr authClient \<Rightarrow>
          (let client = GoogleTasksClient (constructed s) authClient in
           (Inr client, record_event NewGoogleTasksClient (s\<lparr>tasksClient := Some client\<rparr>))))"

definition initializeClient :: "world \<Rightarrow> server \<Rightarrow> (thrown + GoogleTasksClient) \<times> server" where
  "initializeClient w s =
     (case initializeClient_enter s of
        (Some client, s1) \<Rightarrow> (Inr client, s1)
      | (None, s1) \<Rightarrow> initializeClient_resume w s1)"

text \<open>
  A tool call carries \<open>request.params.name\<close> and \<open>request.params.arguments\<close>; the
  handlers read \<open>const { name, arguments: args = {} } = request.params\<close>, and
  \<open>args.field\<close> is \<open>undefined\<close> for a field the arguments lack.
\<close>

datatype CallToolRequest =
  CallToolRequest (params_name: string) (params_arguments: "(string \<times> json) list option")

definition arguments_of :: "CallToolRequest \<Rightarrow> (string \<times> json) list" where
  "arguments_of request = (case params_arguments request of Some a \<Rightarrow> a | None \<Rightarrow> [])"

definition arg :: "(string \<times> json) list \<Rightarrow> string \<Rightarrow> json" where
  "arg args field = (case map_of args field of Some v \<Rightarrow> v | None \<Rightarrow> JUndefined)"

text \<open>
  The text content a handler returns: a fixed text, or \<open>JsonText data\<close> for
  \<open>JSON.stringify(data, null, 2)\<close>.
\<close>

datatype content = Text string | JsonText json

definition client_call ::
  "world \<Rightarrow> GoogleTasksClient \<Rightarrow> api_call \<Rightarrow> server \<Rightarrow> (thrown + json) \<times> server" where
  "client_call w client c s = (api w c, record_event (ClientCall client c) s)"

definition json_text :: "(thrown + json) \<times> server \<Rightarrow> (thrown + content) \<times> server" where
  "json_text r =
     (case r of
        (Inl error, s) \<Rightarrow> (Inl error, s)
      | (Inr data, s) \<Rightarrow> (Inr (JsonText data), s))"

definition fixed_text ::
  "string \<Rightarrow> (thrown + json) \<times> server \<Rightarrow> (thrown + content) \<times> server" where
  "fixed_text t r =
     (case r of
        (Inl error, s) \<Rightarrow> (Inl error, s)
      | (Inr data, s) \<Rightarrow> (Inr (Text t), s))"

definition auth_url_text :: "world \<Rightarrow> string" where
  "auth_url_text w =
     ''Please visit this URL to authorize the application:'' @ [CHR 0x0A, CHR 0x0A]
       @ generateAuthUrl w"

text \<open>The \<open>catch\<close> block of both handlers.\<close>

definition caught :: "thrown \<Rightarrow> thrown" where
  "caught error =
     (case error of
        McpError code message \<Rightarrow> McpError code message
      | Error message \<Rightarrow> McpError InternalError (''Error executing tool: '' @ message)
      | Thrown str \<Rightarrow> McpError InternalError (''Error executing tool: '' @ str))"

subsection \<open>The stdio server (index.ts)\<close>

text \<open>The list its \<open>ListTools\<close> handler returns, written out in the handler.\<close>

definition stdio_listTools :: "ToolDefinition list" where
  "stdio_listTools =
   [\<lparr>name = ''list_task_lists'',
     description = ''List all Google Tasks task lists'',
     inputSchema = \<lparr>schema_type = ''object'', properties = [], required = None\<rparr>\<rparr>,
    \<lparr>name = ''create_task_list'',
     description = ''Create a new task list'',
     inputSchema = \<lparr>schema_type = ''object'',
       properties = [(''title'', string_property ''Title of the new task list'')],
       required = Some [''title'']\<rparr>\<rparr>,
    \<lparr>name = ''list_tasks'',
     description = ''List tasks in a specific task list'',
     inputSchema = \<lparr>schema_type = ''object'',
       properties =
         [(''taskListId'', string_property ''ID of the task list''),
          (''showCompleted'',
             \<lparr>prop_type = ''boolean'', prop_description = ''Include completed tasks'',
              prop_enum = None, prop_default = Some (JBool False)\<rparr>)],
       required = Some [''taskListId'']\<rparr>\<rparr>,
    \<lparr>name = ''create_task'',
     description = ''Create a new task in a task list'',
     inputSchema = \<lparr>schema_type = ''object'',
       properties =
         [(''taskListId'', string_property ''ID of the task list''),
          (''title'', string_property ''Title of the task''),
          (''notes'', string_property ''Notes/description for the task''),
          (''due'', string_property
             ''Due date in RFC 3339 format (e.g., 2024-12-31T23:59:59Z)'')],
       required = Some [''taskListId'', ''title'']\<rparr>\<rparr>,
    \<lparr>name = ''update_task'',
     description = ''Update an existing task'',
     inputSchema = \<lparr>schema_type = ''object'',
       properties =
         [(''taskListId'', string_property ''ID of the task list''),
          (''taskId'', string_property ''ID of the task to update''),
          (''title'', string_property ''New title for the task''),
          (''notes'', string_property ''New notes for the task''),
          (''status'',
             \<lparr>prop_type = ''string'', prop_description = ''Task status'',
              prop_enum = Some [''needsAction'', ''completed''], prop_default = None\<rparr>),
          (''due'', string_property ''Due date in RFC 3339 format'')],
       required = Some [''taskListId'', ''taskId'']\<rparr>\<rparr>,
    \<lparr>name = ''delete_task'',
     description = ''Delete a task'',
     inputSchema = \<lparr>schema_type = ''object'',
       properties =
         [(''taskListId'', string_property ''ID of the task list''),
          (''taskId'', string_property ''ID of the task to delete'')],
       required = Some [''taskListId'', ''taskId'']\<rparr>\<rparr>,
    \<lparr>name = ''get_auth_url'',
     description = ''Get OAuth2 authorization URL for Google Tasks authentication'',
     inputSchema = \<lparr>schema_type = ''object'', properties = [], required = None\<rparr>\<rparr>]"

text \<open>The \<open>try\<close> block of its \<open>CallTool\<close> handler, and the handler.\<close>

definition stdio_try ::
  "world \<Rightarrow> CallToolRequest \<Rightarrow> server \<Rightarrow> (thrown + content) \<times> server" where
  "stdio_try w request s =
     (let tool = params_name request;
          args = arguments_of request
      in
      if tool = ''get_auth_url''
      then (Inr (Text (auth_url_text w)), record_event GetAuthUrl s)
      else
        (case initializeClient w s of
           (Inl error, s1) \<Rightarrow> (Inl error, s1)
         | (Inr client, s1) \<Rightarrow>
             if tool = ''list_task_lists''
             then json_text (client_call w client listTaskLists s1)
             else if tool = ''create_task_list''
             then json_text (client_call w client (createTaskList (arg args ''title'')) s1)
             else if tool = ''list_tasks''
             then json_text (client_call w client
                    (listTasks (arg args ''taskListId'') (arg args ''showCompleted'')) s1)
             else if tool = ''create_task''
             then json_text (client_call w client
                    (createTask (arg args ''taskListId'') (arg args ''title'')
                       (arg args ''notes'') (arg args ''due'')) s1)
             else if tool = ''update_task''
             then json_text (client_call w client
                    (updateTask (arg args ''taskListId'') (arg args ''taskId'')
                       (arg args ''title'') (arg args ''notes'') (arg args ''status'')
                       (arg args ''due'')) s1)
             else if tool = ''delete_task''
             then fixed_text ''Task deleted successfully'' (client_call w client
                    (deleteTask (arg args ''taskListId'') (arg args ''taskId'')) s1)
             else (Inl (McpError MethodNotFound (''Unknown tool: '' @ tool)), s1)))"

definition stdio_callTool ::
  "world \<Rightarrow> CallToolRequest \<Rightarrow> server \<Rightarrow> (thrown + content) \<times> server" where
  "stdio_callTool w request s =
     (case stdio_try w request s of
        (Inl error, s1) \<Rightarrow> (Inl (caught error), s1)
      | (Inr result, s1) \<Rightarrow> (Inr result, s1))"

subsection \<open>The HTTP server (http-server.ts)\<close>

definition http_listTools :: "bool \<Rightarrow> ToolDefinition list" where
  "http_listTools READ_ONLY = getAvailableTools READ_ONLY"

definition read_only_message :: "string \<Rightarrow> string" where
  "read_only_message tool =
     ''Tool '' @ [CHR 0x27] @ tool @ [CHR 0x27]
       @ '' is not available in read-only mode. Set READ_ONLY=false to enable write operations.''"

definition http_try ::
  "world \<Rightarrow> bool \<Rightarrow> CallToolRequest \<Rightarrow> server \<Rightarrow> (thrown + content) \<times> server" where
  "http_try w READ_ONLY request s =
     (let tool = params_name request;
          args = arguments_of request
      in
      if READ_ONLY \<and> tool \<in> MUTATING_TOOLS
      then (Inl (McpError InvalidRequest (read_only_message tool)), s)
      else if tool = ''get_auth_url''
      then (Inr (Text (auth_url_text w)), record_event GetAuthUrl s)
      else
        (case initializeClient w s of
           (Inl error, s1) \<Rightarrow> (Inl error, s1)
         | (Inr client, s1) \<Rightarrow>
             if tool = ''list_task_lists''
             then json_text (client_call w client listTaskLists s1)
             else if tool = ''list_tasks''
             then json_text (client_call w client
                    (listTasks (arg args ''taskListId'') (arg args ''showCompleted'')) s1)
             else if tool = ''create_task_list''
             then json_text (client_call w client (createTaskList (arg args ''title'')) s1)
             else if tool = ''create_task''
             then json_text (client_call w client
                    (createTask (arg args ''taskListId'') (arg args ''title'')
                       (arg args ''notes'') (arg args ''due'')) s1)
             else if tool = ''update_task''
             then json_text (client_call w client
                    (updateTask (arg args ''taskListId'') (arg args ''taskId'')
                       (arg args ''title'') (arg args ''notes'') (arg args ''status'')
                       (arg args ''due'')) s1)
             else if tool = ''delete_task''
             then fixed_text ''Task deleted successfully'' (client_call w client
                    (deleteTask (arg args ''taskListId'') (arg args ''taskId'')) s1)
             else (Inl (McpError MethodNotFound (''Unknown tool: '' @ tool)), s1)))"

definition http_callTool ::
  "world \<Rightarrow> bool \<Rightarrow> CallToolRequest \<Rightarrow> server \<Rightarrow> (thrown + content) \<times> server" where
  "http_callTool w READ_ONLY request s =
     (case http_try w READ_ONLY request s of
        (Inl error, s1) \<Rightarrow> (Inl (caught error), s1)
      | (Inr result, s1) \<Rightarrow> (Inr result, s1))"

subsection \<open>The client method behind each tool\<close>

text \<open>
  The client method the \<open>switch\<close> of both handlers calls for a tool name, with the
  arguments it passes; \<open>None\<close> for \<open>get_auth_url\<close> and for a name that is no tool.
\<close>

definition client_action :: "string \<Rightarrow> (string \<times> json) list \<Rightarrow> api_call option" where
  "client_action tool args =
     (if tool = ''list_task_lists'' then Some listTaskLists
      else if tool = ''create_task_list'' then Some (createTaskList (arg args ''title''))
      else if tool = ''list_tasks''
      then Some (listTasks (arg args ''taskListId'') (arg args ''showCompleted''))
      else if tool = ''create_task''
      then Some (createTask (arg args ''taskListId'') (arg args ''title'')
                   (arg args ''notes'') (arg args ''due''))
      else if tool = ''update_task''
      then Some (updateTask (arg args ''taskListId'') (arg args ''taskId'')
                   (arg args ''title'') (arg args ''notes'') (arg args ''status'')
                   (arg args ''due''))
      else if tool = ''delete_task''
      then Some (deleteTask (arg args ''taskListId'') (arg args ''taskId''))
      else None)"

subsection \<open>Calls of \<open>initializeClient\<close> in flight at once\<close>

text \<open>
  The server handles a request while another one waits at an \<open>await\<close>. An activation of
  \<open>initializeClient\<close> has been entered, waits for \<open>getAuthClient\<close>, or has settled with
  a client or a thrown value; \<open>advance\<close> runs one activation up to its next stop, and
  \<open>run_interleaved\<close> advances the activations in the order a schedule names them.
\<close>

datatype activation = Entered | AwaitingAuthClient | Settled "thrown + GoogleTasksClient"

fun advance :: "world \<Rightarrow> activation \<Rightarrow> server \<Rightarrow> activation \<times> server" where
  "advance w Entered s =
     (case initializeClient_enter s of
        (Some client, s1) \<Rightarrow> (Settled (Inr client), s1)
      | (None, s1) \<Rightarrow> (AwaitingAuthClient, s1))"
| "advance w AwaitingAuthClient s =
     (case initializeClient_resume w s of (r, s1) \<Rightarrow> (Settled r, s1))"
| "advance w (Settled r) s = (Settled r, s)"

fun run_interleaved ::
  "world \<Rightarrow> nat list \<Rightarrow> activation list \<times> server \<Rightarrow> activation list \<times> server" where
  "run_interleaved w [] st = st"
| "run_interleaved w (i # schedule) (acts, s) =
     (if i < length acts
      then (case advance w (acts ! i) s of
              (a, s1) \<Rightarrow> run_interleaved w schedule (acts[i := a], s1))
      else run_interleaved w schedule (acts, s))"

subsection \<open>Two worlds for concrete runs\<close>

text \<open>
  In \<open>token_world\<close> the saved token loads and every call of the API returns \<open>null\<close>; in
  \<open>no_token_world\<close> there is no usable token.
\<close>

definition token_world :: world where
  "token_world =
     \<lparr>token_loads = True, generateAuthUrl = ''https://accounts.google.com/o/oauth2/v2/auth'',
      api = (\<lambda>c. Inr JNull)\<rparr>"

definition no_token_world :: world where
  "no_token_world = token_world\<lparr>token_loads := False\<rparr>"

section \<open>Properties of the terminal formatter\<close>

lemma join_rev_split: "join_units (rev (split_units s)) = rev s"
  by (induction s) (simp_all add: join_units_def split_units_def)

lemma hasRTL_rev: "hasRTL (rev s) = hasRTL s"
  by (simp add: hasRTL_def list_ex_iff)

lemma rtl_unit_unat: "rtl_unit c \<longleftrightarrow> rtl_codepoint (unat c)"
  by (simp add: rtl_unit_def rtl_codepoint_def word_le_nat_alt)

lemma high_surrogate_not_rtl: "is_high_surrogate c \<Longrightarrow> \<not> rtl_unit c"
  by (simp add: rtl_unit_unat is_high_surrogate_def rtl_codepoint_def word_le_nat_alt)

lemma low_surrogate_not_rtl: "is_low_surrogate c \<Longrightarrow> \<not> rtl_unit c"
  by (simp add: rtl_unit_unat is_low_surrogate_def rtl_codepoint_def word_le_nat_alt)

lemma supplementary_not_rtl: "\<not> rtl_codepoint (0x10000 + a * 0x400 + b)"
  by (simp add: rtl_codepoint_def)

text \<open>
  The test on code units and the test on code points agree: the five blocks lie in the
  Basic Multilingual Plane and contain no surrogate.
\<close>

lemma hasRTL_codepoints: "hasRTL s \<longleftrightarrow> list_ex rtl_codepoint (codepoints s)"
proof (induction s rule: codepoints.induct)
  case 1
  show ?case by (simp add: hasRTL_def)
next
  case (2 c)
  show ?case by (simp add: hasRTL_def rtl_unit_unat)
next
  case (3 h l cs)
  show ?case
  proof (cases "is_high_surrogate h \<and> is_low_surrogate l")
    case True
    then have "\<not> rtl_unit h" "\<not> rtl_unit l"
      by (simp_all add: high_surrogate_not_rtl low_surrogate_not_rtl)
    moreover have "hasRTL cs \<longleftrightarrow> list_ex rtl_codepoint (codepoints cs)"
      using 3(1) True by simp
    ultimately show ?thesis
      using True supplementary_not_rtl [of "unat h - 0xD800" "unat l - 0xDC00"]
      by (simp add: hasRTL_def)
  next
    case False
    then have "hasRTL (l # cs) \<longleftrightarrow> list_ex rtl_codepoint (codepoints (l # cs))"
      using 3(2) by simp
    then show ?thesis
      using False by (auto simp add: hasRTL_def rtl_unit_unat)
  qed
qed

lemma sublist_concat_rev: "c \<in> set segs \<Longrightarrow> sublist c (concat (rev segs))"
proof -
  assume "c \<in> set segs"
  then obtain ps ss where "segs = ps @ c # ss" by (auto simp: in_set_conv_decomp)
  then have "concat (rev segs) = concat (rev ss) @ c @ concat (rev ps)" by simp
  then show ?thesis unfolding sublist_def by blast
qed

text \<open>
  The grapheme-aware revision, in a runtime that has a segmenter, returns the segments
  the segmenter yields in reverse order, so each of them is a contiguous part of the
  output; when the segments make up the input (as those of a segmenter do), the output
  has the code units of the input.
\<close>

lemma formatForTerminal_segmenter_reverses_segments:
  assumes "hasRTL text" and "concat (segment text) = text"
  shows "formatForTerminal_segmenter (Some segment) (Str text) = concat (rev (segment text))
     \<and> (\<forall>c \<in> set (segment text).
           sublist c text \<and> sublist c (formatForTerminal_segmenter (Some segment) (Str text)))
     \<and> mset (formatForTerminal_segmenter (Some segment) (Str text)) = mset text"
proof -
  have ne: "text \<noteq> []" using assms(1) by (auto simp: hasRTL_def)
  have seg: "formatForTerminal_segmenter (Some segment) (Str text) = concat (rev (segment text))"
    using assms(1) ne by (simp add: join_units_def)
  have inp: "sublist c text" if cin: "c \<in> set (segment text)" for c
  proof -
    obtain ps ss where "segment text = ps @ c # ss"
      using cin by (auto simp: in_set_conv_decomp)
    then have "concat (segment text) = concat ps @ c @ concat ss" by simp
    then show ?thesis unfolding assms(2) sublist_def by blast
  qed
  have "mset (concat (rev (segment text))) = mset (concat (segment text))"
    by (simp add: mset_concat rev_map [symmetric] sum_list_rev)
  then have m: "mset (formatForTerminal_segmenter (Some segment) (Str text)) = mset text"
    unfolding seg by (simp only: assms(2))
  show ?thesis using seg inp m by (simp add: sublist_concat_rev)
qed

text \<open>
  With a segmenter that keeps surrogate pairs together, the grapheme-aware revision keeps
  the emoji whole on the Hebrew word of the tests followed by U+1F44B.
\<close>

lemma formatForTerminal_segmenter_keeps_pair:
  "formatForTerminal_segmenter (Some surrogate_segments)
        (Str [0x05E9, 0x05DC, 0x05D5, 0x05DD, 0xD83D, 0xDC4B])
       = [0xD83D, 0xDC4B, 0x05DD, 0x05D5, 0x05DC, 0x05E9]"
  by (simp add: hasRTL_def rtl_unit_def join_units_def
      is_high_surrogate_def is_low_surrogate_def)

text \<open>
  Claim C1, at the input where the code departs from it: the input of the repository's
  own test of grapheme-aware reversal, the Hebrew word followed by the waving-hand emoji
  U+1F44B (the surrogate pair D83D DC4B). The string has right-to-left content and
  contains the pair; \<open>formatForTerminal\<close> of src/utils.ts returns the code units in
  reverse order, which puts the low surrogate before the high one, so the pair that
  encodes the emoji is no contiguous part of the output.
\<close>

theorem formatForTerminal_splits_surrogate_pair:
  "hasRTL [0x05E9, 0x05DC, 0x05D5, 0x05DD, 0xD83D, 0xDC4B]
   \<and> codepoints [0xD83D, 0xDC4B] = [0x1F44B]
   \<and> sublist [0xD83D, 0xDC4B] [0x05E9, 0x05DC, 0x05D5, 0x05DD, 0xD83D, 0xDC4B]
   \<and> formatForTerminal (Str [0x05E9, 0x05DC, 0x05D5, 0x05DD, 0xD83D, 0xDC4B])
       = [0xDC4B, 0xD83D, 0x05DD, 0x05D5, 0x05DC, 0x05E9]
   \<and> \<not> sublist [0xD83D, 0xDC4B]
         (formatForTerminal (Str [0x05E9, 0x05DC, 0x05D5, 0x05DD, 0xD83D, 0xDC4B]))"
  by (simp add: hasRTL_def rtl_unit_def split_units_def join_units_def sublist_code
      is_high_surrogate_def is_low_surrogate_def)

text \<open>
  Claim C9. A string none of whose code points lies in the five right-to-left blocks is
  returned as it is; \<open>null\<close>, \<open>undefined\<close> and the empty string give the empty string.
  Both revisions of the function behave so, the grapheme-aware one with or without a
  segmenter.
\<close>

theorem formatForTerminal_without_rtl:
  "(\<not> list_ex rtl_codepoint (codepoints text) \<longrightarrow>
      formatForTerminal (Str text) = text \<and> formatForTerminal_segmenter sg (Str text) = text)
   \<and> formatForTerminal Null = [] \<and> formatForTerminal Undefined = []
   \<and> formatForTerminal (Str []) = []
   \<and> formatForTerminal_segmenter sg Null = [] \<and> formatForTerminal_segmenter sg Undefined = []
   \<and> formatForTerminal_segmenter sg (Str []) = []"
  by (simp add: hasRTL_codepoints)

text \<open>Witness for C9: the string \<open>12345\<close> of the tests.\<close>

theorem formatForTerminal_without_rtl_witness:
  "\<not> list_ex rtl_codepoint (codepoints [0x31, 0x32, 0x33, 0x34, 0x35])
   \<and> formatForTerminal (Str [0x31, 0x32, 0x33, 0x34, 0x35]) = [0x31, 0x32, 0x33, 0x34, 0x35]"
proof -
  have h: "\<not> list_ex rtl_codepoint (codepoints [0x31, 0x32, 0x33, 0x34, 0x35])"
    by (simp add: rtl_codepoint_def is_high_surrogate_def is_low_surrogate_def)
  show ?thesis
    using h formatForTerminal_without_rtl [of "[0x31, 0x32, 0x33, 0x34, 0x35]"]
    by blast
qed

text \<open>
  Claim C10. \<open>formatForTerminal\<close> of src/utils.ts applied twice returns the string it
  started from, for every string.
\<close>

theorem formatForTerminal_involution:
  "formatForTerminal (Str (formatForTerminal (Str s))) = s"
  by (simp add: join_rev_split hasRTL_rev)

section \<open>Properties of the structural formatter\<close>

lemma set_prop_fresh:
  "key \<notin> fst ` set formatted \<Longrightarrow> set_prop formatted key v = formatted @ [(key, v)]"
  by (induction formatted key v rule: set_prop.induct) auto

lemma format_entries_step:
  "format_entries ((key, v) # rest) rtlFields formatted =
     format_entries rest rtlFields (assign_prop formatted key (entry_value rtlFields key v))"
  by (simp add: entry_value_def)

text \<open>
  The loop on an object with distinct keys: the entries other than \<open>__proto__\<close>, in
  order, each with the value the loop stores.
\<close>

lemma format_entries_distinct:
  "distinct (map fst entries) \<Longrightarrow> fst ` set entries \<inter> fst ` set formatted = {} \<Longrightarrow>
     format_entries entries rtlFields formatted =
       formatted @ map (\<lambda>(key, v). (key, entry_value rtlFields key v))
                     (filter (\<lambda>(key, v). key \<noteq> ''__proto__'') entries)"
proof (induction entries arbitrary: formatted)
  case Nil
  show ?case by simp
next
  case (Cons e entries)
  obtain key v where e: "e = (key, v)" by (cases e)
  have d: "distinct (map fst entries)" using Cons.prems(1) by simp
  have nk: "key \<notin> fst ` set entries" using Cons.prems(1) e by (auto simp: image_iff)
  show ?case
  proof (cases "key = ''__proto__''")
    case True
    have disj: "fst ` set entries \<inter> fst ` set formatted = {}"
      using Cons.prems(2) by auto
    have "format_entries (e # entries) rtlFields formatted
        = format_entries entries rtlFields formatted"
      unfolding e format_entries_step using True by (simp add: assign_prop_def)
    also have "\<dots> = formatted @ map (\<lambda>(key, v). (key, entry_value rtlFields key v))
                     (filter (\<lambda>(key, v). key \<noteq> ''__proto__'') entries)"
      by (rule Cons.IH [OF d disj])
    finally show ?thesis using True by (simp add: e)
  next
    case False
    have fresh: "key \<notin> fst ` set formatted" using Cons.prems(2) e by auto
    let ?acc = "formatted @ [(key, entry_value rtlFields key v)]"
    have disj: "fst ` set entries \<inter> fst ` set ?acc = {}"
      using Cons.prems(2) nk by auto
    have "format_entries (e # entries) rtlFields formatted
        = format_entries entries rtlFields ?acc"
      unfolding e format_entries_step using False
      by (simp add: assign_prop_def set_prop_fresh [OF fresh])
    also have "\<dots> = ?acc @ map (\<lambda>(key, v). (key, entry_value rtlFields key v))
                     (filter (\<lambda>(key, v). key \<noteq> ''__proto__'') entries)"
      by (rule Cons.IH [OF d disj])
    finally show ?thesis using False by (simp add: e)
  qed
qed

lemma entry_value_keys:
  "map fst (map (\<lambda>(key, v). (key, entry_value rtlFields key v)) entries) = map fst entries"
  by (induction entries) auto

lemma map_of_entry_value:
  "distinct (map fst entries) \<Longrightarrow> (key, v) \<in> set entries \<Longrightarrow>
     map_of (map (\<lambda>(key, v). (key, entry_value rtlFields key v)) entries) key
       = Some (entry_value rtlFields key v)"
  by (induction entries) (auto simp: image_iff)

text \<open>Outside an object every scalar is returned as it is, whatever its script.\<close>

lemma formatJsonForTerminal_scalar:
  "typeof d \<noteq> TObject \<Longrightarrow> formatJsonForTerminal d rtlFields = d"
  by (cases d) simp_all

text \<open>
  What the claim says holds for every object none of whose keys is \<open>__proto__\<close>: the
  result is an object with the same keys in the same order. Under each key: a string
  under a key of \<open>rtlFields\<close> becomes \<open>formatForTerminal\<close> of it; a string under any
  other key, and every other scalar under any key, is the value itself; an array becomes
  the array of the formatted elements, in order and with the same field names, a scalar
  element being returned as it is; a nested object is formatted with the same field
  names.
\<close>

lemma formatJsonForTerminal_object:
  assumes "distinct (map fst entries)" and "''__proto__'' \<notin> fst ` set entries"
  shows "\<exists>out. formatJsonForTerminal (JObj entries) rtlFields = JObj out
     \<and> map fst out = map fst entries
     \<and> (\<forall>(key, v) \<in> set entries.
          (key \<in> set rtlFields \<and> typeof v = TString \<longrightarrow>
             map_of out key = Some (JStr (formatForTerminal (Str (str_of v)))))
        \<and> (key \<notin> set rtlFields \<and> typeof v = TString \<longrightarrow> map_of out key = Some v)
        \<and> (typeof v \<in> {TUndefined, TBoolean, TNumber} \<longrightarrow> map_of out key = Some v)
        \<and> (v = JNull \<longrightarrow> map_of out key = Some JNull)
        \<and> (\<forall>items. v = JArr items \<longrightarrow>
             map_of out key =
               Some (JArr (map (\<lambda>item. if typeof item = TObject
                                        then formatJsonForTerminal item rtlFields
                                        else item) items)))
        \<and> (\<forall>nested. v = JObj nested \<longrightarrow>
             map_of out key = Some (formatJsonForTerminal (JObj nested) rtlFields)))"
    (is "\<exists>out. ?R out \<and> ?K out \<and> (\<forall>(key, v) \<in> set entries. ?V out key v)")
proof -
  let ?out = "map (\<lambda>(key, v). (key, entry_value rtlFields key v)) entries"
  have all: "filter (\<lambda>(key, v). key \<noteq> ''__proto__'') entries = entries"
    using assms(2) by (force simp: filter_id_conv)
  have res: "?R ?out"
    using format_entries_distinct [OF assms(1), of "[]" rtlFields] by (simp add: all)
  have keys: "?K ?out" by (rule entry_value_keys)
  have items: "map (\<lambda>item. formatJsonForTerminal item rtlFields) items
      = map (\<lambda>item. if typeof item = TObject then formatJsonForTerminal item rtlFields
                     else item) items" for items
    by (simp add: formatJsonForTerminal_scalar)
  have vals: "?V ?out key v" if kv: "(key, v) \<in> set entries" for key v
    unfolding map_of_entry_value [OF assms(1) kv]
    by (cases v) (simp_all add: entry_value_def items)
  from res keys vals show ?thesis by blast
qed

text \<open>
  The object \<open>{title: "\<dots>", id: "123"}\<close> of the specification, the title being the Hebrew
  word of the tests, with the default field names.
\<close>

lemma formatJsonForTerminal_title_and_id:
  "formatJsonForTerminal
        (JObj [(''title'', JStr [0x05E9, 0x05DC, 0x05D5, 0x05DD]),
               (''id'', JStr [0x31, 0x32, 0x33])]) default_rtlFields
       = JObj [(''title'', JStr [0x05DD, 0x05D5, 0x05DC, 0x05E9]),
               (''id'', JStr [0x31, 0x32, 0x33])]"
  by (simp add: default_rtlFields_def hasRTL_def rtl_unit_def split_units_def join_units_def
      assign_prop_def)

text \<open>
  Claim C8, at the input where the code departs from it: the object that
  \<open>JSON.parse\<close> makes of \<open>{"__proto__": {"title": "x"}, "id": "1"}\<close>, which has the two
  own keys \<open>__proto__\<close> and \<open>id\<close>. The assignment under \<open>__proto__\<close> adds no own
  property, so the result has the one key \<open>id\<close>: the key set is not that of the input.
\<close>

theorem formatJsonForTerminal_drops_proto_key:
  "distinct (map fst [(''__proto__'', JObj [(''title'', JStr [0x78])]), (''id'', JStr [0x31])])
   \<and> map fst [(''__proto__'', JObj [(''title'', JStr [0x78])]), (''id'', JStr [0x31])]
       = [''__proto__'', ''id'']
   \<and> formatJsonForTerminal
        (JObj [(''__proto__'', JObj [(''title'', JStr [0x78])]), (''id'', JStr [0x31])])
        default_rtlFields
       = JObj [(''id'', JStr [0x31])]"
  by (simp add: default_rtlFields_def assign_prop_def)

section \<open>Properties of the tool catalog\<close>

lemma read_only_catalog:
  "getAvailableTools True = [TOOL_DEFINITIONS ! 0, TOOL_DEFINITIONS ! 2, TOOL_DEFINITIONS ! 6]"
  by (simp add: getAvailableTools_def TOOL_DEFINITIONS_def READ_ONLY_TOOLS_def)

text \<open>
  Claim C7. Under a read-only policy \<open>getAvailableTools\<close> returns the descriptors whose
  names are in \<open>READ_ONLY_TOOLS\<close>, which are \<open>list_task_lists\<close>, \<open>list_tasks\<close> and
  \<open>get_auth_url\<close>, in catalog order (a subsequence of the catalog) and fewer than the
  whole catalog; when the policy allows mutation it returns the catalog itself.
\<close>

theorem getAvailableTools_catalog:
  "getAvailableTools True = filter (\<lambda>tool. name tool \<in> READ_ONLY_TOOLS) TOOL_DEFINITIONS
   \<and> map name (getAvailableTools True) = [''list_task_lists'', ''list_tasks'', ''get_auth_url'']
   \<and> subseq (getAvailableTools True) TOOL_DEFINITIONS
   \<and> set (getAvailableTools True) \<subset> set TOOL_DEFINITIONS
   \<and> getAvailableTools False = TOOL_DEFINITIONS"
proof -
  have f: "getAvailableTools True
      = filter (\<lambda>tool. name tool \<in> READ_ONLY_TOOLS) TOOL_DEFINITIONS"
    by (simp add: getAvailableTools_def)
  have n: "map name (getAvailableTools True)
      = [''list_task_lists'', ''list_tasks'', ''get_auth_url'']"
    by (simp add: read_only_catalog TOOL_DEFINITIONS_def)
  have s: "subseq (getAvailableTools True) TOOL_DEFINITIONS"
    unfolding f by (rule subseq_filter_left)
  have sub: "set (getAvailableTools True) \<subseteq> set TOOL_DEFINITIONS"
    unfolding f by auto
  have "TOOL_DEFINITIONS ! 1 \<in> set TOOL_DEFINITIONS"
    by (simp add: TOOL_DEFINITIONS_def)
  moreover have "name (TOOL_DEFINITIONS ! 1) \<notin> READ_ONLY_TOOLS"
    by (simp add: TOOL_DEFINITIONS_def READ_ONLY_TOOLS_def)
  then have "TOOL_DEFINITIONS ! 1 \<notin> set (getAvailableTools True)"
    unfolding f by simp
  ultimately have "set (getAvailableTools True) \<noteq> set TOOL_DEFINITIONS" by blast
  with sub have strict: "set (getAvailableTools True) \<subset> set TOOL_DEFINITIONS" by blast
  have full: "getAvailableTools False = TOOL_DEFINITIONS" by (simp add: getAvailableTools_def)
  show ?thesis using f n s strict full by blast
qed

section \<open>Properties of the two servers\<close>

lemma sublist_read_only_message:
  "sublist tool (read_only_message tool)"
  "sublist ''is not available in read-only mode'' (read_only_message tool)"
proof -
  show "sublist tool (read_only_message tool)"
    unfolding read_only_message_def sublist_def by (metis append.assoc)
  have "read_only_message tool = (''Tool '' @ [CHR 0x27] @ tool @ [CHR 0x27] @ '' '')
      @ ''is not available in read-only mode''
      @ ''. Set READ_ONLY=false to enable write operations.''"
    by (simp add: read_only_message_def)
  then show "sublist ''is not available in read-only mode'' (read_only_message tool)"
    unfolding sublist_def by blast
qed

lemma callTool_same:
  "http_callTool w False request s = stdio_callTool w request s"
  by (simp add: http_callTool_def stdio_callTool_def http_try_def stdio_try_def Let_def
      split: prod.splits sum.splits)

lemma callTool_same_non_mutating:
  "params_name request \<notin> MUTATING_TOOLS \<Longrightarrow>
     http_callTool w READ_ONLY request s = stdio_callTool w request s"
  by (simp add: http_callTool_def stdio_callTool_def http_try_def stdio_try_def Let_def
      split: prod.splits sum.splits)

lemma stdio_listTools_catalog: "stdio_listTools = TOOL_DEFINITIONS"
  by (simp add: stdio_listTools_def TOOL_DEFINITIONS_def)

lemma token_world_simps:
  "token_loads token_world" "api token_world c = Inr JNull"
  "\<not> token_loads no_token_world" "api no_token_world c = Inr JNull"
  by (simp_all add: token_world_def no_token_world_def)

lemma new_server_with_token:
  "initializeClient token_world new_server
     = (Inr (GoogleTasksClient 0 OAuth2Client),
        \<lparr>tasksClient = Some (GoogleTasksClient 0 OAuth2Client),
         events = [InitializeClient, GetAuthClient, NewGoogleTasksClient]\<rparr>)"
  by (simp add: initializeClient_def initializeClient_enter_def initializeClient_resume_def
      getAuthClient_def token_world_simps new_server_def record_event_def constructed_def
      Let_def)

lemma new_server_without_token:
  "initializeClient no_token_world new_server
     = (Inl (Error no_token_message),
        \<lparr>tasksClient = None, events = [InitializeClient, GetAuthClient]\<rparr>)"
  by (simp add: initializeClient_def initializeClient_enter_def initializeClient_resume_def
      getAuthClient_def token_world_simps new_server_def record_event_def Let_def)

text \<open>Once the field holds a client, \<open>initializeClient\<close> returns it and builds nothing.\<close>

lemma initializeClient_cached:
  "tasksClient s = Some client \<Longrightarrow>
     initializeClient w s = (Inr client, record_event InitializeClient s)"
  by (simp add: initializeClient_def initializeClient_enter_def record_event_def Let_def)

text \<open>
  Claim C2. When the policy is read-only and the request names one of the four mutating
  tools, the handler of the HTTP server throws an \<open>McpError\<close> with the code
  \<open>InvalidRequest\<close> (the code that stands for the policy denial) whose message contains
  the tool name and says that the tool is not available in read-only mode; the state of
  the server is the one before the call, so neither \<open>initializeClient\<close> nor
  \<open>getAuthClient\<close> has been called.
\<close>

theorem http_callTool_rejects_mutating_when_read_only:
  assumes "params_name request
      \<in> {''create_task_list'', ''create_task'', ''update_task'', ''delete_task''}"
  shows "http_callTool w True request s
       = (Inl (McpError InvalidRequest (read_only_message (params_name request))), s)
     \<and> sublist (params_name request) (read_only_message (params_name request))
     \<and> sublist ''is not available in read-only mode''
          (read_only_message (params_name request))
     \<and> events (snd (http_callTool w True request s)) = events s"
proof -
  have m: "params_name request \<in> MUTATING_TOOLS"
    using assms by (simp add: MUTATING_TOOLS_def)
  have r: "http_callTool w True request s
       = (Inl (McpError InvalidRequest (read_only_message (params_name request))), s)"
    using m by (simp add: http_callTool_def http_try_def caught_def)
  show ?thesis using r sublist_read_only_message by simp
qed

text \<open>Witness for C2: \<open>create_task\<close> on a new server under the read-only policy.\<close>

theorem http_callTool_rejects_mutating_when_read_only_witness:
  "''create_task'' \<in> {''create_task_list'', ''create_task'', ''update_task'', ''delete_task''}
   \<and> http_callTool token_world True (CallToolRequest ''create_task'' None) new_server
       = (Inl (McpError InvalidRequest (read_only_message ''create_task'')), new_server)
   \<and> events (snd (http_callTool token_world True (CallToolRequest ''create_task'' None)
        new_server)) = []"
proof -
  have m: "params_name (CallToolRequest ''create_task'' None)
      \<in> {''create_task_list'', ''create_task'', ''update_task'', ''delete_task''}"
    by simp
  show ?thesis
    using http_callTool_rejects_mutating_when_read_only [OF m, of token_world new_server]
    by (simp add: new_server_def)
qed

text \<open>
  Claim C3, as amended. When the policy of the HTTP server allows mutation, the two
  servers list the same catalog and answer every request alike, with the same calls on
  the collaborators; under a read-only policy they still answer alike every request
  whose tool is not a mutating one. The stdio server has no policy.
\<close>

theorem transports_agree_when_mutation_allowed:
  "http_listTools False = stdio_listTools
   \<and> http_callTool w False request s = stdio_callTool w request s
   \<and> (params_name request \<notin> MUTATING_TOOLS \<longrightarrow>
        http_callTool w True request s = stdio_callTool w request s)"
  using callTool_same callTool_same_non_mutating
  by (simp add: http_listTools_def getAvailableTools_def stdio_listTools_catalog)

text \<open>Witness for C3 as amended: \<open>list_task_lists\<close> under the read-only policy.\<close>

theorem transports_agree_when_mutation_allowed_witness:
  "''list_task_lists'' \<notin> MUTATING_TOOLS
   \<and> http_callTool token_world True (CallToolRequest ''list_task_lists'' None) new_server
       = stdio_callTool token_world (CallToolRequest ''list_task_lists'' None) new_server"
proof -
  have m: "''list_task_lists'' \<notin> MUTATING_TOOLS" by (simp add: MUTATING_TOOLS_def)
  show ?thesis
    using m transports_agree_when_mutation_allowed
      [of token_world "CallToolRequest ''list_task_lists'' None" new_server]
    by simp
qed

text \<open>
  Counterexample to C3 as stated: under the read-only policy the HTTP server lists three
  tools and the stdio server seven, and the request to create a task list is rejected by
  the HTTP server and carried out by the stdio server.
\<close>

theorem transports_differ_when_read_only:
  "http_listTools True \<noteq> stdio_listTools
   \<and> http_callTool token_world True
        (CallToolRequest ''create_task_list'' (Some [(''title'', JStr [0x41])])) new_server
       = (Inl (McpError InvalidRequest (read_only_message ''create_task_list'')), new_server)
   \<and> stdio_callTool token_world
        (CallToolRequest ''create_task_list'' (Some [(''title'', JStr [0x41])])) new_server
       = (Inr (JsonText JNull),
          \<lparr>tasksClient = Some (GoogleTasksClient 0 OAuth2Client),
           events = [InitializeClient, GetAuthClient, NewGoogleTasksClient,
                     ClientCall (GoogleTasksClient 0 OAuth2Client)
                       (createTaskList (JStr [0x41]))]\<rparr>)"
proof -
  have "length (http_listTools True) = 3"
    by (simp add: http_listTools_def read_only_catalog)
  moreover have "length stdio_listTools = 7"
    by (simp add: stdio_listTools_def)
  ultimately have l: "http_listTools True \<noteq> stdio_listTools" by auto
  have h: "http_callTool token_world True
        (CallToolRequest ''create_task_list'' (Some [(''title'', JStr [0x41])])) new_server
       = (Inl (McpError InvalidRequest (read_only_message ''create_task_list'')), new_server)"
    by (simp add: http_callTool_def http_try_def MUTATING_TOOLS_def caught_def Let_def)
  have s: "stdio_callTool token_world
        (CallToolRequest ''create_task_list'' (Some [(''title'', JStr [0x41])])) new_server
       = (Inr (JsonText JNull),
          \<lparr>tasksClient = Some (GoogleTasksClient 0 OAuth2Client),
           events = [InitializeClient, GetAuthClient, NewGoogleTasksClient,
                     ClientCall (GoogleTasksClient 0 OAuth2Client)
                       (createTaskList (JStr [0x41]))]\<rparr>)"
    by (simp add: stdio_callTool_def stdio_try_def new_server_with_token arguments_of_def
        arg_def client_call_def json_text_def record_event_def token_world_simps Let_def)
  show ?thesis using l h s by simp
qed

text \<open>
  Claim C4, as amended. The handlers check no required field. For a request that names
  one of the six tools backed by a client method, once the client handle is there, both
  handlers call that method with the fields read from the arguments, whatever fields the
  arguments have; a field the arguments lack is passed as \<open>undefined\<close>; and when the
  method returns, the call succeeds.
\<close>

theorem callTool_forwards_arguments_unvalidated:
  assumes "initializeClient w s = (Inr client, s1)"
    and "client_action (params_name request) (arguments_of request) = Some call"
  shows "events (snd (stdio_callTool w request s)) = events s1 @ [ClientCall client call]
     \<and> events (snd (http_callTool w False request s)) = events s1 @ [ClientCall client call]
     \<and> (api w call = Inr data \<longrightarrow>
          fst (stdio_callTool w request s)
            = Inr (if params_name request = ''delete_task''
                   then Text ''Task deleted successfully'' else JsonText data))
     \<and> (map_of (arguments_of request) field = None \<longrightarrow>
          arg (arguments_of request) field = JUndefined)"
proof -
  have st: "events (snd (stdio_callTool w request s)) = events s1 @ [ClientCall client call]"
    using assms
    by (auto simp add: stdio_callTool_def stdio_try_def client_action_def Let_def
        client_call_def json_text_def fixed_text_def record_event_def
        split: if_splits sum.splits)
  have ok: "fst (stdio_callTool w request s)
            = Inr (if params_name request = ''delete_task''
                   then Text ''Task deleted successfully'' else JsonText data)"
    if "api w call = Inr data"
    using assms that
    by (auto simp add: stdio_callTool_def stdio_try_def client_action_def Let_def
        client_call_def json_text_def fixed_text_def record_event_def
        split: if_splits)
  show ?thesis using st ok by (simp add: callTool_same arg_def)
qed

text \<open>
  Witness for C4 as amended: \<open>create_task\<close> with a list id and no title, on a new server
  whose token loads.
\<close>

theorem callTool_forwards_arguments_unvalidated_witness:
  "initializeClient token_world new_server
     = (Inr (GoogleTasksClient 0 OAuth2Client),
        \<lparr>tasksClient = Some (GoogleTasksClient 0 OAuth2Client),
         events = [InitializeClient, GetAuthClient, NewGoogleTasksClient]\<rparr>)
   \<and> client_action ''create_task'' [(''taskListId'', JStr [0x4C])]
       = Some (createTask (JStr [0x4C]) JUndefined JUndefined JUndefined)
   \<and> events (snd (stdio_callTool token_world
        (CallToolRequest ''create_task'' (Some [(''taskListId'', JStr [0x4C])])) new_server))
       = [InitializeClient, GetAuthClient, NewGoogleTasksClient,
          ClientCall (GoogleTasksClient 0 OAuth2Client)
            (createTask (JStr [0x4C]) JUndefined JUndefined JUndefined)]
   \<and> arg [(''taskListId'', JStr [0x4C])] ''title'' = JUndefined"
proof -
  let ?request = "CallToolRequest ''create_task'' (Some [(''taskListId'', JStr [0x4C])])"
  have a: "client_action (params_name ?request) (arguments_of ?request)
       = Some (createTask (JStr [0x4C]) JUndefined JUndefined JUndefined)"
    by (simp add: client_action_def arguments_of_def arg_def)
  have m: "map_of (arguments_of ?request) ''title'' = None"
    by (simp add: arguments_of_def)
  show ?thesis
    using callTool_forwards_arguments_unvalidated
      [OF new_server_with_token a, of JNull "''title''"] a m
    by (simp add: new_server_with_token arguments_of_def)
qed

text \<open>
  Counterexample to C4 as stated: the schema of \<open>create_task\<close> requires \<open>title\<close>, the
  request has none, and the stdio handler calls \<open>createTask\<close> with an undefined title
  and returns its result.
\<close>

theorem create_task_without_title_is_carried_out:
  "name (TOOL_DEFINITIONS ! 3) = ''create_task''
   \<and> required (inputSchema (TOOL_DEFINITIONS ! 3)) = Some [''taskListId'', ''title'']
   \<and> map_of [(''taskListId'', JStr [0x4C])] ''title'' = None
   \<and> stdio_callTool token_world
        (CallToolRequest ''create_task'' (Some [(''taskListId'', JStr [0x4C])])) new_server
       = (Inr (JsonText JNull),
          \<lparr>tasksClient = Some (GoogleTasksClient 0 OAuth2Client),
           events = [InitializeClient, GetAuthClient, NewGoogleTasksClient,
                     ClientCall (GoogleTasksClient 0 OAuth2Client)
                       (createTask (JStr [0x4C]) JUndefined JUndefined JUndefined)]\<rparr>)"
proof -
  have t: "name (TOOL_DEFINITIONS ! 3) = ''create_task''"
    "required (inputSchema (TOOL_DEFINITIONS ! 3)) = Some [''taskListId'', ''title'']"
    by (simp_all add: TOOL_DEFINITIONS_def)
  have s: "stdio_callTool token_world
        (CallToolRequest ''create_task'' (Some [(''taskListId'', JStr [0x4C])])) new_server
       = (Inr (JsonText JNull),
          \<lparr>tasksClient = Some (GoogleTasksClient 0 OAuth2Client),
           events = [InitializeClient, GetAuthClient, NewGoogleTasksClient,
                     ClientCall (GoogleTasksClient 0 OAuth2Client)
                       (createTask (JStr [0x4C]) JUndefined JUndefined JUndefined)]\<rparr>)"
    by (simp add: stdio_callTool_def stdio_try_def new_server_with_token arguments_of_def
        arg_def client_call_def json_text_def record_event_def token_world_simps Let_def)
  show ?thesis using t s by simp
qed

text \<open>
  Claim C5, at the input where the code departs from it. The name \<open>no_such_tool\<close> is
  not in the catalog. On a new server both handlers call \<open>initializeClient\<close>, and through
  it \<open>getAuthClient\<close>, before the \<open>switch\<close> finds the name unknown. Without a usable
  token the caller gets \<open>InternalError\<close> with the token message and never learns that
  the tool is unknown; with one, a client is built before \<open>MethodNotFound\<close> is thrown.
\<close>

theorem unknown_tool_reaches_client_provider:
  "''no_such_tool'' \<notin> set (map name TOOL_DEFINITIONS)
   \<and> stdio_callTool no_token_world (CallToolRequest ''no_such_tool'' None) new_server
     = (Inl (McpError InternalError (''Error executing tool: '' @ no_token_message)),
        \<lparr>tasksClient = None, events = [InitializeClient, GetAuthClient]\<rparr>)
   \<and> http_callTool no_token_world True (CallToolRequest ''no_such_tool'' None) new_server
     = (Inl (McpError InternalError (''Error executing tool: '' @ no_token_message)),
        \<lparr>tasksClient = None, events = [InitializeClient, GetAuthClient]\<rparr>)
   \<and> stdio_callTool token_world (CallToolRequest ''no_such_tool'' None) new_server
     = (Inl (McpError MethodNotFound ''Unknown tool: no_such_tool''),
        \<lparr>tasksClient = Some (GoogleTasksClient 0 OAuth2Client),
         events = [InitializeClient, GetAuthClient, NewGoogleTasksClient]\<rparr>)
   \<and> http_callTool token_world True (CallToolRequest ''no_such_tool'' None) new_server
     = (Inl (McpError MethodNotFound ''Unknown tool: no_such_tool''),
        \<lparr>tasksClient = Some (GoogleTasksClient 0 OAuth2Client),
         events = [InitializeClient, GetAuthClient, NewGoogleTasksClient]\<rparr>)"
  by (simp add: stdio_callTool_def stdio_try_def http_callTool_def http_try_def
      new_server_with_token new_server_without_token caught_def MUTATING_TOOLS_def
      TOOL_DEFINITIONS_def Let_def arguments_of_def)

text \<open>
  Claim C6, at the input where the code departs from it. Two calls of
  \<open>initializeClient\<close> are in flight on a new server whose token loads: both are entered
  before either resumes (the schedule 0, 1, 0, 1). Both find \<open>tasksClient\<close> null, so
  \<open>getAuthClient\<close> is called twice and two clients are built; the first call returns
  the first client, the second call the second, which is the one the field keeps.
\<close>

theorem concurrent_initializeClient_constructs_twice:
  "run_interleaved token_world [0, 1, 0, 1] ([Entered, Entered], new_server)
     = ([Settled (Inr (GoogleTasksClient 0 OAuth2Client)),
         Settled (Inr (GoogleTasksClient 1 OAuth2Client))],
        \<lparr>tasksClient = Some (GoogleTasksClient 1 OAuth2Client),
         events = [InitializeClient, GetAuthClient, InitializeClient, GetAuthClient,
                   NewGoogleTasksClient, NewGoogleTasksClient]\<rparr>)"
  by (simp add: initializeClient_enter_def initializeClient_resume_def
      getAuthClient_def token_world_simps new_server_def record_event_def constructed_def
      Let_def)

text \<open>
  For comparison, the same two calls one after the other (the schedule 0, 0, 1, 1) build
  one client, which both return.
\<close>

lemma sequential_initializeClient_constructs_once:
  "run_interleaved token_world [0, 0, 1, 1] ([Entered, Entered], new_server)
     = ([Settled (Inr (GoogleTasksClient 0 OAuth2Client)),
         Settled (Inr (GoogleTasksClient 0 OAuth2Client))],
        \<lparr>tasksClient = Some (GoogleTasksClient 0 OAuth2Client),
         events = [InitializeClient, GetAuthClient, NewGoogleTasksClient,
                   InitializeClient]\<rparr>)"
  by (simp add: initializeClient_enter_def initializeClient_resume_def
      getAuthClient_def token_world_simps new_server_def record_event_def constructed_def
      Let_def)

end
